theory Spec2Isabelle
  imports Complex_Main "HOL-Library.Sublist" "HOL-Library.Product_Lexorder"
begin

section \<open>Python values\<close>

text \<open>
  The engine passes dictionaries whose numeric fields may hold a number, a marker string
  such as \<^verbatim>\<open>"N/A"\<close>, or Python's \<^verbatim>\<open>None\<close>. Python's \<^verbatim>\<open>int\<close> and
  \<^verbatim>\<open>float\<close> are both modelled by \<^typ>\<open>real\<close> with exact arithmetic (binary
  floating-point rounding is not modelled). A dictionary key that may be absent is a field
  of option type, \<^term>\<open>None\<close> meaning that the key is absent.
\<close>

datatype pyval = Num real | Str string | PyNone

datatype py_error = TypeError | ValueError | IndexError | NameError

text \<open>\<^verbatim>\<open>isinstance(v, (int, float))\<close> applied to the result of \<^verbatim>\<open>d.get(key)\<close>.\<close>

fun as_number :: "pyval option \<Rightarrow> real option" where
  "as_number (Some (Num r)) = Some r"
| "as_number _ = None"

text \<open>\<^verbatim>\<open>abs(v)\<close>: a \<^verbatim>\<open>TypeError\<close> on a string or on \<^verbatim>\<open>None\<close>.\<close>

fun py_abs :: "pyval \<Rightarrow> py_error + real" where
  "py_abs (Num r) = Inr \<bar>r\<bar>"
| "py_abs (Str s) = Inl TypeError"
| "py_abs PyNone = Inl TypeError"

text \<open>
  Python 3's \<^verbatim>\<open>round(x)\<close>: to the nearest integer, a tie going to the even one;
  \<^verbatim>\<open>round(x, 2)\<close> is modelled as the same rounding of \<open>100 x\<close>, scaled back.
\<close>

definition py_round :: "real \<Rightarrow> int" where
  "py_round x =
     (let f = \<lfloor>x\<rfloor>; d = x - of_int f
      in if d < 1 / 2 then f else if 1 / 2 < d then f + 1 else if even f then f else f + 1)"

definition py_round2 :: "real \<Rightarrow> real" where
  "py_round2 x = of_int (py_round (x * 100)) / 100"

text \<open>The slice \<^verbatim>\<open>xs[:n]\<close>: a negative \<open>n\<close> counts from the end of the list.\<close>

definition py_slice_to :: "'a list \<Rightarrow> int \<Rightarrow> 'a list" where
  "py_slice_to xs n = (if 0 \<le> n then take (nat n) xs else take (nat (int (length xs) + n)) xs)"

section \<open>Market Impact Analyzer (historical\_matcher.py)\<close>

text \<open>One row of the daily price frame returned by \<^verbatim>\<open>fetch_market_data\<close>.\<close>

record price_row =
  row_date :: string
  row_open :: real
  row_high :: real
  row_low :: real
  row_close :: real

text \<open>
  The loop of \<^verbatim>\<open>calculate_drop_percentage\<close> over \<^verbatim>\<open>closes[1:]\<close>, with the running
  \<^verbatim>\<open>peak\<close> and \<^verbatim>\<open>max_drawdown\<close> as accumulators.
\<close>

fun drawdown_loop :: "real \<Rightarrow> real \<Rightarrow> real list \<Rightarrow> real" where
  "drawdown_loop peak max_drawdown [] = max_drawdown"
| "drawdown_loop peak max_drawdown (c # cs) =
     (let peak' = max peak c;
          current_drawdown = (c / peak' - 1) * 100
      in drawdown_loop peak' (min max_drawdown current_drawdown) cs)"

text \<open>
  \<^verbatim>\<open>calculate_drop_percentage\<close> on the list of closing prices of the frame: the pair
  (overall change, maximum drawdown). Fewer than two rows give \<open>(0.0, 0.0)\<close>.
\<close>

definition calculate_drop_percentage :: "real list \<Rightarrow> real \<times> real" where
  "calculate_drop_percentage closes =
     (if closes = [] \<or> length closes < 2 then (0, 0)
      else
        let first_close = hd closes;
            last_close = last closes;
            overall_change_pct = (last_close / first_close - 1) * 100;
            max_drawdown = drawdown_loop (hd closes) 0 (tl closes)
        in (overall_change_pct, max_drawdown))"

definition max_drawdown_pct_of :: "real list \<Rightarrow> real" where
  "max_drawdown_pct_of closes = snd (calculate_drop_percentage closes)"

text \<open>
  A historical template, as loaded from the template store. Each categorical field is
  what \<^verbatim>\<open>template.get(field)\<close> returns: \<^term>\<open>None\<close> when the key is missing.
  \<open>t_event_date\<close> is the raw value under \<^verbatim>\<open>"event_date"\<close>.
\<close>

record template =
  t_event_summary :: string
  t_event_date :: "pyval option"
  t_affected_ticker :: "string option"
  t_event_type :: "string option"
  t_sentiment :: "string option"
  t_sector :: "string option"

record price_data =
  start_price :: real
  end_price :: real
  lowest_price :: real
  highest_price :: real
  trading_days :: nat

record impact =
  i_price_change_pct :: pyval
  i_max_drawdown_pct :: pyval
  i_date_range :: string
  i_price_data :: "price_data option"

definition DEFAULT_TOP_N :: int where
  "DEFAULT_TOP_N = 3"

definition DEFAULT_ANALYSIS_DAYS :: nat where
  "DEFAULT_ANALYSIS_DAYS = 7"

definition DEFAULT_MARKET_TICKER :: string where
  "DEFAULT_MARKET_TICKER = ''SPY''"

text \<open>The dictionary returned when no impact can be computed.\<close>

definition no_impact :: impact where
  "no_impact =
     \<lparr>i_price_change_pct = Str ''N/A'', i_max_drawdown_pct = Str ''N/A'',
      i_date_range = ''N/A'', i_price_data = None\<rparr>"

definition column_min :: "real list \<Rightarrow> real" where
  "column_min xs = fold min (tl xs) (hd xs)"

definition column_max :: "real list \<Rightarrow> real" where
  "column_max xs = fold max (tl xs) (hd xs)"

text \<open>
  \<^verbatim>\<open>analyze_market_impact\<close>. The market-data collaborator is a parameter:
  \<open>valid_date s\<close> says that \<^verbatim>\<open>strptime(s, "%Y-%m-%d")\<close> succeeds, and
  \<open>fetch_market_data ticker event_date\<close> is the frame \<^verbatim>\<open>fetch_market_data\<close> returns
  for the window from the event date to fourteen days later (it catches its own errors and
  returns the empty frame). An \<^verbatim>\<open>event_date\<close> that is a non-zero number passes the
  test \<^verbatim>\<open>if not event_date\<close> and makes \<^verbatim>\<open>strptime\<close> raise \<^verbatim>\<open>TypeError\<close>,
  which is not caught here.
\<close>

definition analyze_market_impact ::
  "(string \<Rightarrow> bool) \<Rightarrow> (string \<Rightarrow> string \<Rightarrow> price_row list) \<Rightarrow> template \<Rightarrow> py_error + impact" where
  "analyze_market_impact valid_date fetch_market_data event =
     (let ticker = (case t_affected_ticker event of None \<Rightarrow> DEFAULT_MARKET_TICKER | Some t \<Rightarrow> t)
      in case t_event_date event of
           None \<Rightarrow> Inr no_impact
         | Some PyNone \<Rightarrow> Inr no_impact
         | Some (Num n) \<Rightarrow> if n = 0 then Inr no_impact else Inl TypeError
         | Some (Str event_date) \<Rightarrow>
             if event_date = [] then Inr no_impact
             else if \<not> valid_date event_date then Inr no_impact
             else
               let df = fetch_market_data ticker event_date
               in if df = [] then Inr no_impact
                  else
                    let date_range = row_date (hd df) @ '' to '' @ row_date (last df);
                        pd = \<lparr>start_price = row_close (hd df), end_price = row_close (last df),
                              lowest_price = column_min (map row_low df),
                              highest_price = column_max (map row_high df),
                              trading_days = length df\<rparr>;
                        df' = (if DEFAULT_ANALYSIS_DAYS < length df
                               then take DEFAULT_ANALYSIS_DAYS df else df);
                        r = calculate_drop_percentage (map row_close df')
                    in Inr \<lparr>i_price_change_pct = Num (fst r), i_max_drawdown_pct = Num (snd r),
                            i_date_range = date_range, i_price_data = Some pd\<rparr>)"

section \<open>Match Scorer (historical\_matcher.py)\<close>

text \<open>
  The classified event. The categorical fields are what \<^verbatim>\<open>headline.get(field)\<close>
  returns; the two tags are the truth values of \<^verbatim>\<open>event_tags.get(tag, False)\<close>; the
  treasury yields are the entries of \<^verbatim>\<open>macro_snapshot\<close>; \<open>h_direction\<close> is the
  external recommendation under \<^verbatim>\<open>"direction"\<close>.
\<close>

record headline =
  h_event_type :: "string option"
  h_sentiment :: "string option"
  h_sector :: "string option"
  h_is_cpi_week :: bool
  h_surprise_positive :: bool
  h_treasury2y :: "real option"
  h_treasury10y :: "real option"
  h_direction :: "string option"

definition calculate_match_score :: "headline \<Rightarrow> template \<Rightarrow> real" where
  "calculate_match_score h t =
     (let score = 0;
          score = (if h_event_type h = t_event_type t then score + 0.5 else score);
          score = (if h_sentiment h = t_sentiment t then score + 0.3 else score);
          score = (if h_sector h = t_sector t then score + 0.2 else score)
      in score)"

text \<open>A macro snapshot attached to a match (used by the Pattern Aggregator).\<close>

record macro =
  CPI_YoY :: "pyval option"
  FedFundsRate :: "pyval option"
  Unemployment :: "pyval option"
  TenYearYield :: "pyval option"
  TwoYearYield :: "pyval option"

text \<open>
  The sentiment-comparison record of a match: the two labels and the agreement value
  (\<^verbatim>\<open>comparison.agreement\<close>, 0 when missing).
\<close>

record sentiment_analysis =
  classified_label :: string
  historical_label :: string
  agreement :: real

text \<open>
  A match dictionary. The Match Scorer fills the first eight fields; the others are
  optional enrichments read by the Pattern Aggregator and the Trade Decision Engine.
  \<open>m_match_score\<close> holds numbers only.
\<close>

record match =
  m_event_summary :: string
  m_match_score :: "real option"
  m_affected_ticker :: "string option"
  m_price_change_pct :: "pyval option"
  m_max_drawdown_pct :: "pyval option"
  m_event_date :: "pyval option"
  m_date_range :: string
  m_price_data :: "price_data option"
  m_drop_pct :: "pyval option"
  m_sector :: "string option"
  m_days_to_recovery :: "real option"
  m_macro_data :: "macro option"
  m_sentiment_analysis :: "sentiment_analysis option"

text \<open>The list \<^verbatim>\<open>scored_events\<close>: the templates with a positive score, in template order.\<close>

definition scored_events :: "headline \<Rightarrow> template list \<Rightarrow> (real \<times> template) list" where
  "scored_events h historical_events =
     map (\<lambda>event. (calculate_match_score h event, event))
       (filter (\<lambda>event. 0 < calculate_match_score h event) historical_events)"

text \<open>
  \<^verbatim>\<open>scored_events.sort(reverse=True, key=lambda x: x[0])\<close> followed by
  \<^verbatim>\<open>scored_events[:top_n]\<close>. Python's sort is stable also with \<^verbatim>\<open>reverse=True\<close>;
  the stable insertion sort \<^const>\<open>sort_key\<close> on the negated score orders the same way.
\<close>

definition top_events :: "headline \<Rightarrow> template list \<Rightarrow> int \<Rightarrow> (real \<times> template) list" where
  "top_events h historical_events top_n =
     py_slice_to (sort_key (\<lambda>x. - fst x) (scored_events h historical_events)) top_n"

text \<open>
  One result dictionary: the impact fields of \<^verbatim>\<open>analyze_market_impact\<close>, or the
  markers of the \<^verbatim>\<open>except\<close> branch when it raised.
\<close>

definition format_result ::
  "(string \<Rightarrow> bool) \<Rightarrow> (string \<Rightarrow> string \<Rightarrow> price_row list) \<Rightarrow> real \<times> template \<Rightarrow> match" where
  "format_result valid_date fetch_market_data se =
     (let score = fst se; event = snd se;
          base = \<lparr>m_event_summary = t_event_summary event,
                  m_match_score = Some (py_round2 score),
                  m_affected_ticker =
                    Some (case t_affected_ticker event of None \<Rightarrow> DEFAULT_MARKET_TICKER | Some t \<Rightarrow> t),
                  m_price_change_pct = Some (Str ''N/A (processing error)''),
                  m_max_drawdown_pct = Some (Str ''N/A (processing error)''),
                  m_event_date = Some (case t_event_date event of None \<Rightarrow> Str [] | Some d \<Rightarrow> d),
                  m_date_range = ''N/A'',
                  m_price_data = None,
                  m_drop_pct = None, m_sector = None, m_days_to_recovery = None,
                  m_macro_data = None, m_sentiment_analysis = None\<rparr>
      in case analyze_market_impact valid_date fetch_market_data event of
           Inr impact_data \<Rightarrow>
             base\<lparr>m_price_change_pct := Some (i_price_change_pct impact_data),
                  m_max_drawdown_pct := Some (i_max_drawdown_pct impact_data),
                  m_date_range := i_date_range impact_data,
                  m_price_data := i_price_data impact_data\<rparr>
         | Inl e \<Rightarrow> base)"

text \<open>
  \<^verbatim>\<open>match_similar_events\<close>; the templates returned by \<^verbatim>\<open>load_historical_events\<close>
  are the parameter \<open>historical_events\<close>.
\<close>

definition match_similar_events ::
  "(string \<Rightarrow> bool) \<Rightarrow> (string \<Rightarrow> string \<Rightarrow> price_row list) \<Rightarrow> template list
     \<Rightarrow> headline \<Rightarrow> int \<Rightarrow> match list" where
  "match_similar_events valid_date fetch_market_data historical_events classified_headline top_n =
     (if historical_events = [] then []
      else map (format_result valid_date fetch_market_data)
             (top_events classified_headline historical_events top_n))"

section \<open>Correlation Engine (llm\_event\_query.py)\<close>

text \<open>
  A macro data point as built by \<^verbatim>\<open>analyze_similar_events\<close>: every key is present, a
  missing indicator being \<^verbatim>\<open>None\<close>.
\<close>

record macro_point =
  p_price_change :: pyval
  p_date :: pyval
  p_cpi :: pyval
  p_fed_rate :: pyval
  p_unemployment :: pyval
  p_ten_year :: pyval
  p_two_year :: pyval
  p_yield_curve :: pyval

datatype factor = F_cpi | F_fed_rate | F_unemployment | F_yield_curve

fun factor_value :: "factor \<Rightarrow> macro_point \<Rightarrow> pyval" where
  "factor_value F_cpi p = p_cpi p"
| "factor_value F_fed_rate p = p_fed_rate p"
| "factor_value F_unemployment p = p_unemployment p"
| "factor_value F_yield_curve p = p_yield_curve p"

datatype strength = Strength_None | Negligible | Weak | Moderate | Strong

datatype corr_direction = Positive | Negative

text \<open>
  One entry of the \<^verbatim>\<open>correlations\<close> dictionary. The initial entries have no
  \<^verbatim>\<open>direction\<close> key.
\<close>

record correlation_entry =
  c_correlation :: real
  c_strength :: strength
  c_sample_size :: nat
  c_direction :: "corr_direction option"

definition initial_entry :: correlation_entry where
  "initial_entry =
     \<lparr>c_correlation = 0, c_strength = Strength_None, c_sample_size = 0, c_direction = None\<rparr>"

text \<open>The pairs whose two components are both not \<^verbatim>\<open>None\<close>.\<close>

definition valid_points :: "factor \<Rightarrow> macro_point list \<Rightarrow> (pyval \<times> pyval) list" where
  "valid_points f macro_data_points =
     map (\<lambda>p. (p_price_change p, factor_value f p))
       (filter (\<lambda>p. p_price_change p \<noteq> PyNone \<and> factor_value f p \<noteq> PyNone) macro_data_points)"

text \<open>
  The sums over \<^verbatim>\<open>x_values\<close> and \<^verbatim>\<open>y_values\<close> need numbers: \<^verbatim>\<open>sum\<close> raises
  \<^verbatim>\<open>TypeError\<close> on the first string.
\<close>

fun numeric_values :: "pyval list \<Rightarrow> py_error + real list" where
  "numeric_values [] = Inr []"
| "numeric_values (Num r # vs) =
     (case numeric_values vs of Inl e \<Rightarrow> Inl e | Inr rs \<Rightarrow> Inr (r # rs))"
| "numeric_values (v # vs) = Inl TypeError"

definition correlation_coefficient :: "real list \<Rightarrow> real list \<Rightarrow> real" where
  "correlation_coefficient x_values y_values =
     (let n = real (length x_values);
          sum_x = sum_list x_values;
          sum_y = sum_list y_values;
          sum_xy = sum_list (map (\<lambda>(x, y). x * y) (zip x_values y_values));
          sum_x2 = sum_list (map (\<lambda>x. x * x) x_values);
          sum_y2 = sum_list (map (\<lambda>y. y * y) y_values);
          numerator = n * sum_xy - sum_x * sum_y;
          denominator = sqrt ((n * sum_x2 - sum_x ^ 2) * (n * sum_y2 - sum_y ^ 2))
      in if denominator \<noteq> 0 then numerator / denominator else 0)"

definition classify_strength :: "real \<Rightarrow> strength" where
  "classify_strength abs_corr =
     (if 0.7 \<le> abs_corr then Strong
      else if 0.5 \<le> abs_corr then Moderate
      else if 0.3 \<le> abs_corr then Weak
      else Negligible)"

definition entry_of :: "real list \<Rightarrow> real list \<Rightarrow> correlation_entry" where
  "entry_of x_values y_values =
     (let correlation = correlation_coefficient x_values y_values
      in \<lparr>c_correlation = py_round2 correlation,
          c_strength = classify_strength \<bar>correlation\<bar>,
          c_sample_size = length x_values,
          c_direction = Some (if 0 < correlation then Positive else Negative)\<rparr>)"

text \<open>
  The body of the loop over the factors: \<open>Inr None\<close> when fewer than three valid
  points leave the entry as it is, \<open>Inl\<close> when the computation raises.
\<close>

definition factor_entry :: "factor \<Rightarrow> macro_point list \<Rightarrow> py_error + correlation_entry option" where
  "factor_entry f macro_data_points =
     (let vp = valid_points f macro_data_points
      in if 3 \<le> length vp then
           (case numeric_values (map fst vp) of
              Inl e \<Rightarrow> Inl e
            | Inr x_values \<Rightarrow>
                (case numeric_values (map snd vp) of
                   Inl e \<Rightarrow> Inl e
                 | Inr y_values \<Rightarrow> Inr (Some (entry_of x_values y_values))))
         else Inr None)"

text \<open>
  The loop runs inside one \<^verbatim>\<open>try\<close>: an exception ends it, and the entries assigned
  so far (and the initial ones of the factors not reached) are returned.
\<close>

fun correlations_loop ::
  "factor list \<Rightarrow> macro_point list \<Rightarrow> (factor \<Rightarrow> correlation_entry) \<Rightarrow> factor \<Rightarrow> correlation_entry" where
  "correlations_loop [] pts correlations = correlations"
| "correlations_loop (f # fs) pts correlations =
     (case factor_entry f pts of
        Inl e \<Rightarrow> correlations
      | Inr None \<Rightarrow> correlations_loop fs pts correlations
      | Inr (Some entry) \<Rightarrow> correlations_loop fs pts (correlations(f := entry)))"

definition calculate_macro_correlations :: "macro_point list \<Rightarrow> factor \<Rightarrow> correlation_entry" where
  "calculate_macro_correlations macro_data_points =
     correlations_loop [F_cpi, F_fed_rate, F_unemployment, F_yield_curve] macro_data_points
       (\<lambda>f. initial_entry)"

text \<open>
  Whether the loop body raises for a factor, and the factors the loop handles before a
  given one.
\<close>

definition raises :: "factor \<Rightarrow> macro_point list \<Rightarrow> bool" where
  "raises f macro_data_points =
     (case factor_entry f macro_data_points of Inl e \<Rightarrow> True | Inr r \<Rightarrow> False)"

fun factors_before :: "factor \<Rightarrow> factor list" where
  "factors_before F_cpi = []"
| "factors_before F_fed_rate = [F_cpi]"
| "factors_before F_unemployment = [F_cpi, F_fed_rate]"
| "factors_before F_yield_curve = [F_cpi, F_fed_rate, F_unemployment]"



section \<open>Pattern Aggregator (llm\_event\_query.py)\<close>

record alignment_data =
  a_classified :: string
  a_historical :: string
  a_alignment :: real
  a_price_change :: "pyval option"

text \<open>The local variables of the loop of \<^verbatim>\<open>analyze_similar_events\<close>.\<close>

record agg_state =
  price_changes :: "real list"
  drawdowns :: "real list"
  bullish_count :: nat
  bearish_count :: nat
  sectors :: "(string \<times> nat) list"
  tickers :: "(string \<times> nat) list"
  days_to_recovery_sum :: real
  has_recovery_data :: nat
  macro_data_points :: "macro_point list"
  events_with_macro :: nat
  sentiment_alignments :: "alignment_data list"
  events_with_sentiment :: nat
  aligned :: nat
  divergent :: nat

definition initial_state :: agg_state where
  "initial_state =
     \<lparr>price_changes = [], drawdowns = [], bullish_count = 0, bearish_count = 0,
      sectors = [], tickers = [], days_to_recovery_sum = 0, has_recovery_data = 0,
      macro_data_points = [], events_with_macro = 0, sentiment_alignments = [],
      events_with_sentiment = 0, aligned = 0, divergent = 0\<rparr>"

text \<open>Counting in a dictionary; the items keep their insertion order.\<close>

fun bump :: "string \<Rightarrow> (string \<times> nat) list \<Rightarrow> (string \<times> nat) list" where
  "bump k [] = [(k, 1)]"
| "bump k ((k', c) # rest) = (if k = k' then (k', c + 1) # rest else (k', c) # bump k rest)"

text \<open>\<^verbatim>\<open>max(items, key=lambda x: x[1])\<close>: the first item with the greatest count.\<close>

fun max_by_count :: "string \<times> nat \<Rightarrow> (string \<times> nat) list \<Rightarrow> string \<times> nat" where
  "max_by_count best [] = best"
| "max_by_count best (x # xs) = max_by_count (if snd best < snd x then x else best) xs"

definition dominant :: "(string \<times> nat) list \<Rightarrow> string" where
  "dominant items = (case items of [] \<Rightarrow> ''Unknown'' | x # xs \<Rightarrow> fst (max_by_count x xs))"

text \<open>\<^verbatim>\<open>macro.get(key)\<close>.\<close>

definition get_or_none :: "pyval option \<Rightarrow> pyval" where
  "get_or_none v = (case v of None \<Rightarrow> PyNone | Some x \<Rightarrow> x)"

text \<open>Subtraction: a \<^verbatim>\<open>TypeError\<close> unless both operands are numbers.\<close>

fun py_sub :: "pyval \<Rightarrow> pyval \<Rightarrow> py_error + pyval" where
  "py_sub (Num a) (Num b) = Inr (Num (a - b))"
| "py_sub _ _ = Inl TypeError"

text \<open>
  The macro data point collected for an event, if any: the event has a
  \<^verbatim>\<open>macro_data\<close> dictionary, its price change is not \<^verbatim>\<open>None\<close>, and the dictionary
  has one of the four key metrics.
\<close>

definition macro_point_of :: "match \<Rightarrow> py_error + macro_point option" where
  "macro_point_of event =
     (case m_macro_data event of
        None \<Rightarrow> Inr None
      | Some macro \<Rightarrow>
          if get_or_none (m_price_change_pct event) = PyNone then Inr None
          else if list_ex (\<lambda>v. v \<noteq> None)
                    [CPI_YoY macro, FedFundsRate macro, Unemployment macro, TenYearYield macro]
          then
            (case (if TenYearYield macro \<noteq> None \<and> TwoYearYield macro \<noteq> None
                   then py_sub (get_or_none (TenYearYield macro)) (get_or_none (TwoYearYield macro))
                   else Inr PyNone) of
               Inl e \<Rightarrow> Inl e
             | Inr yc \<Rightarrow>
                 Inr (Some \<lparr>p_price_change = get_or_none (m_price_change_pct event),
                            p_date = (case m_event_date event of None \<Rightarrow> Str ''Unknown'' | Some d \<Rightarrow> d),
                            p_cpi = get_or_none (CPI_YoY macro),
                            p_fed_rate = get_or_none (FedFundsRate macro),
                            p_unemployment = get_or_none (Unemployment macro),
                            p_ten_year = get_or_none (TenYearYield macro),
                            p_two_year = get_or_none (TwoYearYield macro),
                            p_yield_curve = yc\<rparr>))
          else Inr None)"

text \<open>One iteration of the loop over \<^verbatim>\<open>similar_events\<close>.\<close>

definition process_event :: "agg_state \<Rightarrow> match \<Rightarrow> py_error + agg_state" where
  "process_event st event =
     (let st = (case as_number (m_price_change_pct event) of
                  None \<Rightarrow> st
                | Some price_change \<Rightarrow>
                    if 0 < price_change
                    then st\<lparr>price_changes := price_changes st @ [price_change],
                            bullish_count := bullish_count st + 1\<rparr>
                    else st\<lparr>price_changes := price_changes st @ [price_change],
                            bearish_count := bearish_count st + 1\<rparr>);
          st = (case as_number (m_max_drawdown_pct event) of
                  None \<Rightarrow> st
                | Some drawdown \<Rightarrow> st\<lparr>drawdowns := drawdowns st @ [drawdown]\<rparr>);
          st = st\<lparr>sectors :=
                    bump (case m_sector event of None \<Rightarrow> ''Unknown'' | Some s \<Rightarrow> s) (sectors st)\<rparr>;
          st = st\<lparr>tickers :=
                    bump (case m_affected_ticker event of None \<Rightarrow> ''Unknown'' | Some t \<Rightarrow> t)
                      (tickers st)\<rparr>;
          st = (case m_days_to_recovery event of
                  None \<Rightarrow> st
                | Some d \<Rightarrow>
                    if d = 0 then st
                    else st\<lparr>days_to_recovery_sum := days_to_recovery_sum st + d,
                            has_recovery_data := has_recovery_data st + 1\<rparr>)
      in case macro_point_of event of
           Inl e \<Rightarrow> Inl e
         | Inr mp \<Rightarrow>
             let st = (case mp of
                         None \<Rightarrow> st
                       | Some macro_point \<Rightarrow>
                           st\<lparr>macro_data_points := macro_data_points st @ [macro_point],
                              events_with_macro := events_with_macro st + 1\<rparr>)
             in Inr (case m_sentiment_analysis event of
                       None \<Rightarrow> st
                     | Some sentiment_data \<Rightarrow>
                         let st = st\<lparr>events_with_sentiment := events_with_sentiment st + 1\<rparr>;
                             st = (if 0.7 \<le> agreement sentiment_data
                                   then st\<lparr>aligned := aligned st + 1\<rparr>
                                   else st\<lparr>divergent := divergent st + 1\<rparr>)
                         in st\<lparr>sentiment_alignments := sentiment_alignments st @
                                 [\<lparr>a_classified = classified_label sentiment_data,
                                   a_historical = historical_label sentiment_data,
                                   a_alignment = agreement sentiment_data,
                                   a_price_change = m_price_change_pct event\<rparr>]\<rparr>))"

fun process_events :: "agg_state \<Rightarrow> match list \<Rightarrow> py_error + agg_state" where
  "process_events st [] = Inr st"
| "process_events st (event # events) =
     (case process_event st event of
        Inl e \<Rightarrow> Inl e
      | Inr st' \<Rightarrow> process_events st' events)"

text \<open>\<^verbatim>\<open>sum(xs) / len(xs) if xs else 0\<close>.\<close>

definition average :: "real list \<Rightarrow> real" where
  "average xs = (if xs = [] then 0 else sum_list xs / real (length xs))"

definition pattern_of :: "real \<Rightarrow> real \<Rightarrow> string" where
  "pattern_of avg_price_change avg_drawdown =
     (if 5 < avg_price_change then ''Strong bullish trend''
      else if 1 < avg_price_change then ''Moderate bullish trend''
      else if -1 < avg_price_change then ''Neutral or sideways movement''
      else if -5 < avg_price_change then ''Moderate bearish trend''
      else ''Strong bearish trend'')
     @ (if 10 < avg_drawdown then '' with significant volatility''
        else if 5 < avg_drawdown then '' with moderate volatility''
        else '' with low volatility'')"

text \<open>
  The sentiment insights are formatted sentences in the source; the model keeps which
  sentence is produced and the numbers it quotes.
\<close>

datatype sentiment_insight =
    Aligned_stronger real real
  | Diverged_stronger real real
  | Strong_consistency real
  | Low_consistency real

record sentiment_performance =
  aligned_sentiment_avg_price_change :: real
  diverged_sentiment_avg_price_change :: real
  aligned_count :: nat
  diverged_count :: nat

record sentiment_result =
  s_events_with_sentiment :: nat
  sentiment_alignment_pct :: int
  sentiment_insights :: "sentiment_insight list"
  s_sentiment_performance :: "sentiment_performance option"

definition sentiment_block :: "agg_state \<Rightarrow> sentiment_result" where
  "sentiment_block st =
     (let alignment_pct = real (aligned st) / real (events_with_sentiment st) * 100;
          aligned_performance =
            List.map_filter (\<lambda>a. as_number (a_price_change a))
              (filter (\<lambda>a. 0.7 \<le> a_alignment a) (sentiment_alignments st));
          diverged_performance =
            List.map_filter (\<lambda>a. as_number (a_price_change a))
              (filter (\<lambda>a. \<not> 0.7 \<le> a_alignment a) (sentiment_alignments st));
          avg_aligned_performance = average aligned_performance;
          avg_diverged_performance = average diverged_performance;
          performance_diff = \<bar>avg_aligned_performance\<bar> - \<bar>avg_diverged_performance\<bar>;
          insights1 =
            (if 2 \<le> length aligned_performance \<and> 2 \<le> length diverged_performance then
               (if 2 < performance_diff
                then [Aligned_stronger avg_aligned_performance avg_diverged_performance]
                else if performance_diff < -2
                then [Diverged_stronger avg_diverged_performance avg_aligned_performance]
                else [])
             else []);
          insights2 =
            (if 70 \<le> alignment_pct then [Strong_consistency alignment_pct]
             else if alignment_pct \<le> 30 then [Low_consistency alignment_pct]
             else [])
      in \<lparr>s_events_with_sentiment = events_with_sentiment st,
          sentiment_alignment_pct = py_round alignment_pct,
          sentiment_insights = insights1 @ insights2,
          s_sentiment_performance =
            (if aligned_performance \<noteq> [] \<and> diverged_performance \<noteq> []
             then Some \<lparr>aligned_sentiment_avg_price_change = py_round2 avg_aligned_performance,
                        diverged_sentiment_avg_price_change = py_round2 avg_diverged_performance,
                        aligned_count = length aligned_performance,
                        diverged_count = length diverged_performance\<rparr>
             else None)\<rparr>)"

text \<open>
  The result dictionary of a successful call. The keys \<^verbatim>\<open>events_with_macro\<close>,
  \<^verbatim>\<open>macro_correlations\<close> and \<^verbatim>\<open>macro_insights\<close> are assigned only after the call
  of \<^verbatim>\<open>generate_macro_insights\<close> has returned; see \<open>analyze_similar_events\<close> below.
\<close>

record pattern_result =
  pattern_summary :: string
  consistency_score :: int
  avg_price_change :: real
  avg_max_drawdown :: real
  bullish_pct :: int
  bearish_pct :: int
  dominant_sector :: string
  dominant_ticker :: string
  avg_days_to_recovery :: "int option"
  similar_events_count :: nat
  has_macro_analysis :: bool
  has_sentiment_analysis :: bool
  sentiment :: "sentiment_result option"

datatype failure = No_similar_events | Error_analyzing py_error

text \<open>The returned dictionary: \<^verbatim>\<open>success\<close> false with a message, or true with the fields.\<close>

datatype analysis = Failed failure | Succeeded pattern_result

fun success :: "analysis \<Rightarrow> bool" where
  "success (Failed f) = False"
| "success (Succeeded r) = True"

text \<open>The unrounded \<^verbatim>\<open>consistency_score\<close> computed from the counters.\<close>

definition consistency_of :: "agg_state \<Rightarrow> nat \<Rightarrow> real" where
  "consistency_of st total_events =
     (let majority = max (bullish_count st) (bearish_count st)
      in if 0 < total_events then real majority / real total_events * 100 else 0)"

text \<open>
  \<^verbatim>\<open>analyze_similar_events\<close>. Its body runs inside \<^verbatim>\<open>try ... except Exception\<close>,
  which turns every exception into a failure result.

  With three or more macro data points the function calls
  \<^verbatim>\<open>calculate_macro_correlations(macro_data_points)\<close>, which catches its own errors, and
  then \<^verbatim>\<open>generate_macro_insights(macro_correlations)\<close>. That function is declared as
  \<^verbatim>\<open>def generate_macro_insights(correlations: dict, macro_data_points: list)\<close>, with no
  default for its second parameter, and this is its only definition: the call with one
  argument raises \<^verbatim>\<open>TypeError\<close> before the body is entered, and the handler returns the
  failure result.
\<close>

definition analyze_similar_events :: "match list \<Rightarrow> analysis" where
  "analyze_similar_events similar_events =
     (if similar_events = [] then Failed No_similar_events
      else
        case process_events initial_state similar_events of
          Inl e \<Rightarrow> Failed (Error_analyzing e)
        | Inr st \<Rightarrow>
            let total_events = length similar_events;
                avg_price_change = average (price_changes st);
                avg_drawdown = average (drawdowns st);
                consistency_score = consistency_of st total_events;
                result =
                  \<lparr>pattern_summary = pattern_of avg_price_change avg_drawdown,
                   consistency_score = py_round consistency_score,
                   avg_price_change = py_round2 avg_price_change,
                   avg_max_drawdown = py_round2 avg_drawdown,
                   bullish_pct =
                     (if 0 < total_events
                      then py_round (real (bullish_count st) / real total_events * 100) else 0),
                   bearish_pct =
                     (if 0 < total_events
                      then py_round (real (bearish_count st) / real total_events * 100) else 0),
                   dominant_sector = dominant (sectors st),
                   dominant_ticker = dominant (tickers st),
                   avg_days_to_recovery =
                     (if 0 < has_recovery_data st
                      then Some (py_round (days_to_recovery_sum st / real (has_recovery_data st)))
                      else None),
                   similar_events_count = total_events,
                   has_macro_analysis = False,
                   has_sentiment_analysis = False,
                   sentiment = None\<rparr>
            in if 3 \<le> events_with_macro st then
                 (let macro_correlations = calculate_macro_correlations (macro_data_points st)
                  in Failed (Error_analyzing TypeError))
               else if 2 \<le> events_with_sentiment st then
                 Succeeded (result\<lparr>has_sentiment_analysis := True,
                                    sentiment := Some (sentiment_block st)\<rparr>)
               else Succeeded result)"

section \<open>Trade Decision Engine (trade\_picker.py)\<close>

datatype trade_type = Option_trade | Equity_trade

datatype trade_direction = BUY | SELL

datatype option_type = CALL | PUT

datatype risk_factor = CPI_week | Inverted_yield_curve | Positive_surprise

text \<open>
  The sentence \<^verbatim>\<open>rationale_addition\<close>; \<open>Unbound\<close> stands for the local variable
  before its first assignment.
\<close>

datatype rationale_addition =
    Unbound
  | LLM_recommends_SELL
  | LLM_recommends_BUY
  | Equity_BUY_low_drawdown
  | Equity_SELL_risk "risk_factor list"
  | Using_PUT
  | Using_CALL

text \<open>
  The rationale is a formatted sentence in the source; the model keeps its three forms,
  the match it quotes and the added sentence.
\<close>

datatype rationale =
    No_historical_matches
  | Could_not_fetch_price string
  | Similar_event match rationale_addition

text \<open>\<^verbatim>\<open>date.weekday()\<close>: Monday is 0; day number 1 is a Monday.\<close>

definition weekday :: "int \<Rightarrow> int" where
  "weekday d = (d + 6) mod 7"

definition get_next_friday :: "int \<Rightarrow> int" where
  "get_next_friday from_date =
     (let days_ahead = 4 - weekday from_date;
          days_ahead = (if days_ahead \<le> 0 then days_ahead + 7 else days_ahead)
      in from_date + days_ahead)"

text \<open>
  \<^verbatim>\<open>select_expiry_date\<close>. Dates are day numbers (Python's \<^verbatim>\<open>date.toordinal()\<close>);
  \<open>today\<close> is the date of \<^verbatim>\<open>datetime.now()\<close>, and the expiry strings of the provider
  are taken as already parsed.
\<close>

definition select_expiry_date :: "int \<Rightarrow> int list \<Rightarrow> int \<Rightarrow> int \<Rightarrow> int" where
  "select_expiry_date today expiry_dates min_days max_days =
     (if expiry_dates = [] then get_next_friday today
      else
        let valid_expiries =
              map (\<lambda>expiry. (expiry, expiry - today))
                (filter (\<lambda>expiry. min_days \<le> expiry - today \<and> expiry - today \<le> max_days)
                   expiry_dates)
        in if valid_expiries \<noteq> [] then fst (hd (sort_key snd valid_expiries))
           else hd expiry_dates)"

definition select_strike_price :: "real \<Rightarrow> option_type \<Rightarrow> real \<Rightarrow> real" where
  "select_strike_price current_price option_type price_change_pct =
     (let otm_pct = min (\<bar>price_change_pct\<bar> * 0.3) 5.0;
          target = (if option_type = PUT then current_price * (1 - otm_pct / 100)
                    else current_price * (1 + otm_pct / 100))
      in if current_price < 100 then of_int (py_round (target * 2)) / 2
         else of_int (py_round target))"

text \<open>The inner function \<^verbatim>\<open>get_price_change\<close>.\<close>

definition get_price_change :: "match \<Rightarrow> py_error + real" where
  "get_price_change event =
     (case m_price_change_pct event of
        Some v \<Rightarrow> py_abs v
      | None \<Rightarrow> (case m_drop_pct event of Some v \<Rightarrow> py_abs v | None \<Rightarrow> Inr 0))"

text \<open>
  \<^verbatim>\<open>sorted\<close> evaluates the key of every element, in order, before it compares any;
  the first exception ends the call.
\<close>

definition match_score_or_0 :: "match \<Rightarrow> real" where
  "match_score_or_0 x = (case m_match_score x of None \<Rightarrow> 0 | Some s \<Rightarrow> s)"

fun sort_keys :: "match list \<Rightarrow> py_error + ((real \<times> real) \<times> match) list" where
  "sort_keys [] = Inr []"
| "sort_keys (x # xs) =
     (case get_price_change x of
        Inl e \<Rightarrow> Inl e
      | Inr c \<Rightarrow>
          (case sort_keys xs of
             Inl e \<Rightarrow> Inl e
           | Inr ks \<Rightarrow> Inr (((c, match_score_or_0 x), x) # ks)))"

text \<open>
  \<^verbatim>\<open>sorted(historical_matches, key=..., reverse=True)[0]\<close>. Python compares the key
  tuples lexicographically and keeps the order of equal keys also with
  \<^verbatim>\<open>reverse=True\<close>; the stable \<^const>\<open>sort_key\<close> on the negated tuple orders the
  same way.
\<close>

definition select_top_match :: "match list \<Rightarrow> py_error + match" where
  "select_top_match historical_matches =
     (case sort_keys historical_matches of
        Inl e \<Rightarrow> Inl e
      | Inr ks \<Rightarrow>
          (case sort_key (\<lambda>k. (- fst (fst k), - snd (fst k))) ks of
             [] \<Rightarrow> Inl IndexError
           | k # rest \<Rightarrow> Inr (snd k)))"

text \<open>\<^verbatim>\<open>str.lower()\<close> on ASCII text.\<close>

definition lower_char :: "char \<Rightarrow> char" where
  "lower_char c =
     (case map_of (zip ''ABCDEFGHIJKLMNOPQRSTUVWXYZ'' ''abcdefghijklmnopqrstuvwxyz'') c of
        None \<Rightarrow> c
      | Some l \<Rightarrow> l)"

definition lower :: "string \<Rightarrow> string" where
  "lower s = map lower_char s"

text \<open>\<^verbatim>\<open>not llm_direction\<close>: the key is missing, or holds \<^verbatim>\<open>None\<close> or the empty string.\<close>

definition falsy :: "string option \<Rightarrow> bool" where
  "falsy v = (v = None \<or> v = Some [])"

definition inverted_curve :: "headline \<Rightarrow> bool" where
  "inverted_curve h =
     (case h_treasury2y h of
        None \<Rightarrow> False
      | Some treasury2y \<Rightarrow>
          (case h_treasury10y h of
             None \<Rightarrow> False
           | Some treasury10y \<Rightarrow> treasury2y \<noteq> 0 \<and> treasury10y \<noteq> 0 \<and> treasury10y < treasury2y))"

definition risk_factors :: "headline \<Rightarrow> risk_factor list" where
  "risk_factors h =
     (if h_is_cpi_week h then [CPI_week] else [])
     @ (if inverted_curve h then [Inverted_yield_curve] else [])
     @ (if h_surprise_positive h then [Positive_surprise] else [])"

text \<open>
  The decision of \<^verbatim>\<open>generate_trade_idea\<close> between the choice of the top match and the
  price lookup: from the event, the price change and the magnitude of the maximum drawdown
  of the top match to \<^verbatim>\<open>trade_type\<close>, \<^verbatim>\<open>direction\<close>, \<^verbatim>\<open>option_type\<close> and
  \<^verbatim>\<open>rationale_addition\<close>.
\<close>

definition decide ::
  "headline \<Rightarrow> real \<Rightarrow> real \<Rightarrow> trade_type \<times> trade_direction \<times> option_type \<times> rationale_addition" where
  "decide classified_headline price_change_pct max_drawdown_pct =
     (let sentiment = lower (case h_sentiment classified_headline of None \<Rightarrow> [] | Some s \<Rightarrow> s);
          is_cpi_week = h_is_cpi_week classified_headline;
          surprise_positive = h_surprise_positive classified_headline;
          trade_type = Option_trade;
          direction = BUY;
          rationale_addition = Unbound;
          llm_direction = h_direction classified_headline;
          direction = (if llm_direction = Some ''BUY'' then BUY
                       else if llm_direction = Some ''SELL'' then SELL else direction);
          rationale_addition = (if llm_direction = Some ''SELL'' then LLM_recommends_SELL
                                else if llm_direction = Some ''BUY'' then LLM_recommends_BUY
                                else rationale_addition);
          option_type = (if price_change_pct < 0 \<and> 3.0 < \<bar>price_change_pct\<bar> then PUT else CALL)
      in if sentiment = ''bullish'' \<and> max_drawdown_pct < 2.0 then
           (if falsy llm_direction \<or> llm_direction \<noteq> Some ''SELL''
            then (Equity_trade, BUY, option_type, Equity_BUY_low_drawdown)
            else (Equity_trade, direction, option_type, rationale_addition))
         else if sentiment = ''bearish''
                 \<and> (is_cpi_week \<or> inverted_curve classified_headline \<or> surprise_positive) then
           (if falsy llm_direction \<or> llm_direction \<noteq> Some ''BUY''
            then (Equity_trade, SELL, option_type, Equity_SELL_risk (risk_factors classified_headline))
            else (Equity_trade, direction, option_type, rationale_addition))
         else
           (if falsy llm_direction \<or> trade_type = Option_trade
            then (trade_type, direction, option_type,
                  if option_type = PUT then Using_PUT else Using_CALL)
            else (trade_type, direction, option_type, rationale_addition)))"

text \<open>The trade idea.\<close>

record trade_idea =
  ticker :: "string option"
  trade_type :: trade_type
  direction :: trade_direction
  option_type :: "option_type option"
  strike :: "real option"
  expiry :: "int option"
  rationale :: rationale

text \<open>
  \<^verbatim>\<open>generate_trade_idea\<close>. The collaborators are parameters: \<open>fetch_current_price\<close>
  (0 when the price cannot be fetched), \<open>fetch_option_data\<close> (the expiry dates of a
  ticker) and \<open>today\<close>. The function has no exception handler of its own.
\<close>

definition generate_trade_idea ::
  "(string \<Rightarrow> real) \<Rightarrow> (string \<Rightarrow> int list) \<Rightarrow> int \<Rightarrow> headline \<Rightarrow> match list
     \<Rightarrow> py_error + trade_idea" where
  "generate_trade_idea fetch_current_price fetch_option_data today classified_headline
       historical_matches =
     (if historical_matches = [] then
        Inr \<lparr>ticker = None, trade_type = Option_trade, direction = BUY, option_type = None,
             strike = None, expiry = None, rationale = No_historical_matches\<rparr>
      else
        case select_top_match historical_matches of
          Inl e \<Rightarrow> Inl e
        | Inr top_match \<Rightarrow>
            let tk = (case m_affected_ticker top_match of None \<Rightarrow> ''SPY'' | Some t \<Rightarrow> t);
                price_change = (case m_price_change_pct top_match of
                                  Some v \<Rightarrow> v
                                | None \<Rightarrow> (case m_drop_pct top_match of Some v \<Rightarrow> v | None \<Rightarrow> Num 0))
            in case py_abs (case m_max_drawdown_pct top_match of None \<Rightarrow> Num 5.0 | Some v \<Rightarrow> v) of
                 Inl e \<Rightarrow> Inl e
               | Inr max_drawdown_pct \<Rightarrow>
                   (case price_change of
                      Num price_change_pct \<Rightarrow>
                        (case decide classified_headline price_change_pct max_drawdown_pct of
                           (tt, dir, ot, rationale_addition) \<Rightarrow>
                             let current_price = fetch_current_price tk
                             in if current_price \<le> 0 then
                                  Inr \<lparr>ticker = Some tk, trade_type = tt, direction = dir,
                                       option_type = (if tt = Option_trade then Some ot else None),
                                       strike = None, expiry = None,
                                       rationale = Could_not_fetch_price tk\<rparr>
                                else if rationale_addition = Unbound then Inl NameError
                                else
                                  Inr \<lparr>ticker = Some tk, trade_type = tt, direction = dir,
                                       option_type = (if tt = Option_trade then Some ot else None),
                                       strike =
                                         (if tt = Option_trade
                                          then Some (select_strike_price current_price ot price_change_pct)
                                          else None),
                                       expiry =
                                         (if tt = Option_trade
                                          then Some (select_expiry_date today (fetch_option_data tk) 7 30)
                                          else None),
                                       rationale = Similar_event top_match rationale_addition\<rparr>)
                    | Str s \<Rightarrow> Inl TypeError
                    | PyNone \<Rightarrow> Inl TypeError))"

section \<open>Price-change signs as the aggregator counts them\<close>




section \<open>Example inputs\<close>

definition tpl_fed :: template where
  "tpl_fed =
     \<lparr>t_event_summary = ''Fed announces emergency rate cut'',
      t_event_date = Some (Str ''2020-03-03''), t_affected_ticker = Some ''SPY'',
      t_event_type = Some ''Monetary Policy'', t_sentiment = Some ''Bearish'',
      t_sector = Some ''Financials''\<rparr>"




text \<open>A template without a sector, and one whose date was stored as a number.\<close>

definition tpl_no_sector :: template where
  "tpl_no_sector =
     \<lparr>t_event_summary = ''Retailer misses'',
      t_event_date = Some (Str ''2022-05-18''), t_affected_ticker = Some ''XRT'',
      t_event_type = Some ''Earnings'', t_sentiment = Some ''Bearish'',
      t_sector = None\<rparr>"

definition tpl_numeric_date :: template where
  "tpl_numeric_date =
     \<lparr>t_event_summary = ''Fed announces emergency rate cut'',
      t_event_date = Some (Num 20200303), t_affected_ticker = Some ''SPY'',
      t_event_type = Some ''Monetary Policy'', t_sentiment = Some ''Bearish'',
      t_sector = Some ''Financials''\<rparr>"

definition bearish_headline :: headline where
  "bearish_headline =
     \<lparr>h_event_type = Some ''Monetary Policy'', h_sentiment = Some ''Bearish'',
      h_sector = Some ''Financials'', h_is_cpi_week = False, h_surprise_positive = False,
      h_treasury2y = None, h_treasury10y = None, h_direction = None\<rparr>"

definition headline_no_sector :: headline where
  "headline_no_sector =
     \<lparr>h_event_type = Some ''Earnings'', h_sentiment = Some ''Bullish'',
      h_sector = None, h_is_cpi_week = False, h_surprise_positive = False,
      h_treasury2y = None, h_treasury10y = None, h_direction = None\<rparr>"

text \<open>A bullish event with an external SELL, and a bearish CPI-week event with an external BUY.\<close>

definition bullish_sell_headline :: headline where
  "bullish_sell_headline =
     \<lparr>h_event_type = Some ''Monetary Policy'', h_sentiment = Some ''Bullish'',
      h_sector = Some ''Financials'', h_is_cpi_week = False, h_surprise_positive = False,
      h_treasury2y = None, h_treasury10y = None, h_direction = Some ''SELL''\<rparr>"

definition bearish_buy_headline :: headline where
  "bearish_buy_headline =
     \<lparr>h_event_type = Some ''Inflation'', h_sentiment = Some ''Bearish'',
      h_sector = Some ''Technology'', h_is_cpi_week = True, h_surprise_positive = False,
      h_treasury2y = None, h_treasury10y = None, h_direction = Some ''BUY''\<rparr>"

definition any_date :: "string \<Rightarrow> bool" where
  "any_date s = True"

definition no_data :: "string \<Rightarrow> string \<Rightarrow> price_row list" where
  "no_data tk d = []"

definition one_row :: "string \<Rightarrow> string \<Rightarrow> price_row list" where
  "one_row tk d =
     [\<lparr>row_date = ''2020-03-03'', row_open = 300, row_high = 310, row_low = 295, row_close = 305\<rparr>]"

definition two_flat_rows :: "string \<Rightarrow> string \<Rightarrow> price_row list" where
  "two_flat_rows tk d =
     [\<lparr>row_date = ''2020-03-03'', row_open = 300, row_high = 310, row_low = 295, row_close = 305\<rparr>,
      \<lparr>row_date = ''2020-03-04'', row_open = 305, row_high = 308, row_low = 301, row_close = 305\<rparr>]"

text \<open>A match dictionary with a numeric price change and drawdown.\<close>

definition numeric_match :: "string \<Rightarrow> real \<Rightarrow> real \<Rightarrow> real \<Rightarrow> match" where
  "numeric_match summary score change dd =
     \<lparr>m_event_summary = summary, m_match_score = Some score, m_affected_ticker = Some ''SPY'',
      m_price_change_pct = Some (Num change), m_max_drawdown_pct = Some (Num dd),
      m_event_date = Some (Str ''2020-03-03''), m_date_range = ''2020-03-03 to 2020-03-12'',
      m_price_data = None, m_drop_pct = None, m_sector = None, m_days_to_recovery = None,
      m_macro_data = None, m_sentiment_analysis = None\<rparr>"

definition macro_snapshot :: "real \<Rightarrow> real \<Rightarrow> macro" where
  "macro_snapshot cpi rate =
     \<lparr>CPI_YoY = Some (Num cpi), FedFundsRate = Some (Num rate), Unemployment = None,
      TenYearYield = None, TwoYearYield = None\<rparr>"

definition macro_match :: "real \<Rightarrow> real \<Rightarrow> real \<Rightarrow> match" where
  "macro_match change cpi rate =
     (numeric_match ''Fed decision'' 0.8 change (-1))\<lparr>m_macro_data := Some (macro_snapshot cpi rate)\<rparr>"

definition point :: "pyval \<Rightarrow> pyval \<Rightarrow> pyval \<Rightarrow> pyval \<Rightarrow> macro_point" where
  "point change cpi rate unemployment =
     \<lparr>p_price_change = change, p_date = Str ''Unknown'', p_cpi = cpi, p_fed_rate = rate,
      p_unemployment = unemployment, p_ten_year = PyNone, p_two_year = PyNone,
      p_yield_curve = PyNone\<rparr>"

definition three_macro_matches :: "match list" where
  "three_macro_matches = [macro_match 3 3.2 5.0, macro_match 4 2.1 0.25, macro_match (-1) 8.5 1.5]"







text \<open>
  Three data points: numeric price changes and CPI values, a federal funds rate that is a
  string in the first point, numeric unemployment rates.
\<close>

definition three_points :: "macro_point list" where
  "three_points =
     [point (Num 1) (Num 0) (Str ''n/a'') (Num 5),
      point (Num 2) (Num 11) (Num 1) (Num 6),
      point (Num 3) (Num 13) (Num 2) (Num 7)]"

definition current_price_450 :: "string \<Rightarrow> real" where
  "current_price_450 tk = 450"

definition no_expiries :: "string \<Rightarrow> int list" where
  "no_expiries tk = []"

section \<open>Drawdown sign\<close>

lemma drawdown_loop_le_acc: "drawdown_loop peak m cs \<le> m"
proof (induction cs arbitrary: peak m)
  case Nil
  show ?case by simp
next
  case (Cons c cs)
  have "drawdown_loop (max peak c) (min m ((c / max peak c - 1) * 100)) cs
          \<le> min m ((c / max peak c - 1) * 100)"
    by (rule Cons.IH)
  then show ?case by (simp add: Let_def)
qed

lemma current_drawdown_nonpos:
  assumes "0 < (peak::real)" "0 < c"
  shows "(c / max peak c - 1) * 100 \<le> 0"
proof -
  have "c \<le> max peak c" by simp
  moreover have "0 < max peak c" using assms by simp
  ultimately show ?thesis by (simp add: field_simps)
qed

lemma current_drawdown_zero_iff:
  assumes "0 < (peak::real)" "0 < c"
  shows "(c / max peak c - 1) * 100 = 0 \<longleftrightarrow> peak \<le> c"
proof -
  have pos: "0 < max peak c" using assms by simp
  have "(c / max peak c - 1) * 100 = 0 \<longleftrightarrow> c = max peak c"
    using pos by (simp add: field_simps)
  also have "\<dots> \<longleftrightarrow> peak \<le> c" by (auto simp: max_def)
  finally show ?thesis .
qed

text \<open>
  Started from a zero accumulator, the walk stays at zero exactly when every close is at
  least the running peak, i.e. when the remaining series (with the peak in front) never
  decreases.
\<close>

lemma drawdown_loop_zero_iff:
  assumes "0 < peak" "list_all (\<lambda>c. 0 < c) cs"
  shows "drawdown_loop peak 0 cs = 0 \<longleftrightarrow> sorted (peak # cs)"
  using assms
proof (induction cs arbitrary: peak)
  case Nil
  show ?case by simp
next
  case (Cons c cs)
  then have cpos: "0 < c" and rest: "list_all (\<lambda>c. 0 < c) cs" by simp_all
  let ?d = "(c / max peak c - 1) * 100"
  have dle: "?d \<le> 0" using Cons.prems(1) cpos by (rule current_drawdown_nonpos)
  show ?case
  proof (cases "peak \<le> c")
    case True
    then have d0: "?d = 0" using current_drawdown_zero_iff [OF Cons.prems(1) cpos] by simp
    have mx: "max peak c = c" using True by simp
    have "min 0 ?d = 0" using d0 by simp
    then have "drawdown_loop peak 0 (c # cs) = drawdown_loop c 0 cs"
      unfolding drawdown_loop.simps Let_def mx by simp
    moreover have "drawdown_loop c 0 cs = 0 \<longleftrightarrow> sorted (c # cs)"
      using Cons.IH [OF cpos rest] .
    moreover have "sorted (peak # c # cs) \<longleftrightarrow> sorted (c # cs)"
      using True by auto
    ultimately show ?thesis by simp
  next
    case False
    then have "?d \<noteq> 0" using current_drawdown_zero_iff [OF Cons.prems(1) cpos] by simp
    with dle have dneg: "?d < 0" by simp
    have "drawdown_loop peak 0 (c # cs) = drawdown_loop (max peak c) (min 0 ?d) cs"
      by (simp add: Let_def)
    also have "\<dots> \<le> min 0 ?d" by (rule drawdown_loop_le_acc)
    also have "\<dots> < 0" using dneg by simp
    finally have "drawdown_loop peak 0 (c # cs) \<noteq> 0" by simp
    moreover have "\<not> sorted (peak # c # cs)" using False by simp
    ultimately show ?thesis by simp
  qed
qed

text \<open>
  C7. For every series of closing prices with at least two entries, all positive, the
  maximum drawdown computed by the running-peak walk of \<^verbatim>\<open>calculate_drop_percentage\<close>
  is at most zero, and it is zero exactly when the series never decreases.
\<close>

theorem max_drawdown_sign:
  assumes "2 \<le> length closes" and "list_all (\<lambda>c. 0 < c) closes"
  shows "max_drawdown_pct_of closes \<le> 0
         \<and> (max_drawdown_pct_of closes = 0 \<longleftrightarrow> sorted closes)"
proof -
  from assms(1) obtain c cs where closes: "closes = c # cs"
    by (cases closes) auto
  then have m: "max_drawdown_pct_of closes = drawdown_loop c 0 cs"
    using assms(1) by (simp add: max_drawdown_pct_of_def calculate_drop_percentage_def Let_def)
  have cpos: "0 < c" and rest: "list_all (\<lambda>c. 0 < c) cs"
    using assms(2) closes by simp_all
  have "drawdown_loop c 0 cs \<le> 0" by (rule drawdown_loop_le_acc)
  moreover have "drawdown_loop c 0 cs = 0 \<longleftrightarrow> sorted (c # cs)"
    using drawdown_loop_zero_iff [OF cpos rest] .
  ultimately show ?thesis using m closes by simp
qed

theorem max_drawdown_sign_witness:
  "max_drawdown_pct_of [100, 95, 90, 110] = -10
   \<and> max_drawdown_pct_of [100, 95, 90, 110] \<le> 0
   \<and> (max_drawdown_pct_of [100, 95, 90, 110] = 0 \<longleftrightarrow> sorted [100, 95, 90, 110 :: real])"
proof -
  have l: "2 \<le> length [100, 95, 90, 110 :: real]" by simp
  have p: "list_all (\<lambda>c. 0 < c) [100, 95, 90, 110 :: real]" by simp
  have v: "max_drawdown_pct_of [100, 95, 90, 110] = -10"
    by (simp add: max_drawdown_pct_of_def calculate_drop_percentage_def Let_def)
  show ?thesis using max_drawdown_sign [OF l p] v by simp
qed

section \<open>Match Scorer and Market Impact Analyzer: properties\<close>


lemma score_pos_iff: "0 < calculate_match_score h t \<longleftrightarrow>
   (h_event_type h = t_event_type t \<or> h_sentiment h = t_sentiment t \<or> h_sector h = t_sector t)"
  by (simp add: calculate_match_score_def Let_def)



















text \<open>
  C4 (amended). When the fetched frame is empty, the Market Impact Analyzer returns the
  \<^verbatim>\<open>"N/A"\<close> markers; when it has exactly one row, the analyzer returns the numbers
  \<open>0.0\<close> for both the price change and the maximum drawdown.
\<close>

theorem short_series_impact:
  assumes "t_event_date event = Some (Str d)" and "d \<noteq> []" and "valid_date d"
    and "df = fetch (case t_affected_ticker event of None \<Rightarrow> DEFAULT_MARKET_TICKER | Some t \<Rightarrow> t) d"
    and "length df < 2"
  shows "case analyze_market_impact valid_date fetch event of
           Inl e \<Rightarrow> False
         | Inr r \<Rightarrow>
             if df = [] then r = no_impact
             else i_price_change_pct r = Num 0 \<and> i_max_drawdown_pct r = Num 0"
  using assms
  by (auto simp: analyze_market_impact_def calculate_drop_percentage_def
      DEFAULT_ANALYSIS_DAYS_def Let_def)

theorem short_series_impact_witness:
  "(case analyze_market_impact any_date one_row tpl_fed of
      Inl e \<Rightarrow> False
    | Inr r \<Rightarrow> i_price_change_pct r = Num 0 \<and> i_max_drawdown_pct r = Num 0)
   \<and> (case analyze_market_impact any_date no_data tpl_fed of
        Inl e \<Rightarrow> False
      | Inr r \<Rightarrow> r = no_impact)"
proof -
  have d: "t_event_date tpl_fed = Some (Str ''2020-03-03'')" by (simp add: tpl_fed_def)
  have ne: "''2020-03-03'' \<noteq> []" by simp
  have v: "any_date ''2020-03-03''" by (simp add: any_date_def)
  have one: "length (one_row ''SPY'' ''2020-03-03'') < 2" "one_row ''SPY'' ''2020-03-03'' \<noteq> []"
    by (simp_all add: one_row_def)
  have none: "length (no_data ''SPY'' ''2020-03-03'') < 2" "no_data ''SPY'' ''2020-03-03'' = []"
    by (simp_all add: no_data_def)
  have tk: "(case t_affected_ticker tpl_fed of None \<Rightarrow> DEFAULT_MARKET_TICKER | Some t \<Rightarrow> t) = ''SPY''"
    by (simp add: tpl_fed_def)
  have a: "case analyze_market_impact any_date one_row tpl_fed of
      Inl e \<Rightarrow> False
    | Inr r \<Rightarrow> i_price_change_pct r = Num 0 \<and> i_max_drawdown_pct r = Num 0"
    using short_series_impact [of tpl_fed "''2020-03-03''" any_date "one_row ''SPY'' ''2020-03-03''" one_row]
      d ne v one unfolding tk by (simp split: sum.splits)
  have b: "case analyze_market_impact any_date no_data tpl_fed of
        Inl e \<Rightarrow> False
      | Inr r \<Rightarrow> r = no_impact"
    using short_series_impact [of tpl_fed "''2020-03-03''" any_date "no_data ''SPY'' ''2020-03-03''" no_data]
      d ne v none unfolding tk by (simp split: sum.splits)
  show ?thesis using a b by simp
qed

theorem one_row_counterexample:
  "analyze_market_impact any_date one_row tpl_fed =
     Inr \<lparr>i_price_change_pct = Num 0, i_max_drawdown_pct = Num 0,
          i_date_range = ''2020-03-03 to 2020-03-03'',
          i_price_data = Some \<lparr>start_price = 305, end_price = 305, lowest_price = 295,
                                highest_price = 310, trading_days = 1\<rparr>\<rparr>
   \<and> analyze_market_impact any_date two_flat_rows tpl_fed =
     Inr \<lparr>i_price_change_pct = Num 0, i_max_drawdown_pct = Num 0,
          i_date_range = ''2020-03-03 to 2020-03-04'',
          i_price_data = Some \<lparr>start_price = 305, end_price = 305, lowest_price = 295,
                                highest_price = 310, trading_days = 2\<rparr>\<rparr>"
  by (simp add: analyze_market_impact_def any_date_def one_row_def two_flat_rows_def tpl_fed_def
      calculate_drop_percentage_def DEFAULT_ANALYSIS_DAYS_def column_min_def column_max_def
      Let_def)

text \<open>
  C5 (amended). No template is skipped because a categorical field is missing. A missing
  field is read as \<^verbatim>\<open>None\<close>: the score is the sum of the weights of the fields on
  which event and template agree, so a field missing on both sides agrees and adds its
  weight, and a field missing on one side only adds nothing. A template is a scored
  candidate exactly when it agrees with the event on at least one of the three fields.
\<close>

theorem missing_field_scoring:
  "calculate_match_score h t =
     (if h_event_type h = t_event_type t then 0.5 else 0)
     + (if h_sentiment h = t_sentiment t then 0.3 else 0)
     + (if h_sector h = t_sector t then 0.2 else 0)
   \<and> (t \<in> snd ` set (scored_events h ts) \<longleftrightarrow>
        t \<in> set ts \<and> (h_event_type h = t_event_type t \<or> h_sentiment h = t_sentiment t
                       \<or> h_sector h = t_sector t))
   \<and> (h_event_type h = None \<and> t_event_type t = None \<longrightarrow> 0.5 \<le> calculate_match_score h t)
   \<and> (h_sentiment h = None \<and> t_sentiment t = None \<longrightarrow> 0.3 \<le> calculate_match_score h t)
   \<and> (h_sector h = None \<and> t_sector t = None \<longrightarrow> 0.2 \<le> calculate_match_score h t)"
proof -
  have a: "calculate_match_score h t =
     (if h_event_type h = t_event_type t then 0.5 else 0)
     + (if h_sentiment h = t_sentiment t then 0.3 else 0)
     + (if h_sector h = t_sector t then 0.2 else 0)"
    by (simp add: calculate_match_score_def Let_def)
  have b: "t \<in> snd ` set (scored_events h ts) \<longleftrightarrow>
        t \<in> set ts \<and> (h_event_type h = t_event_type t \<or> h_sentiment h = t_sentiment t
                       \<or> h_sector h = t_sector t)"
    using score_pos_iff [of h t] by (auto simp: scored_events_def image_iff)
  show ?thesis using b unfolding a by simp
qed

theorem missing_field_scoring_witness:
  "0.2 \<le> calculate_match_score headline_no_sector tpl_no_sector
   \<and> tpl_no_sector \<in> snd ` set (scored_events headline_no_sector [tpl_no_sector])"
proof -
  have s: "h_sector headline_no_sector = None \<and> t_sector tpl_no_sector = None"
    by (simp add: headline_no_sector_def tpl_no_sector_def)
  have e: "h_event_type headline_no_sector = t_event_type tpl_no_sector"
    by (simp add: headline_no_sector_def tpl_no_sector_def)
  show ?thesis
    using missing_field_scoring [of headline_no_sector tpl_no_sector "[tpl_no_sector]"] s e
    by simp
qed

theorem missing_sector_counterexample:
  "h_sector headline_no_sector = None \<and> t_sector tpl_no_sector = None
   \<and> calculate_match_score headline_no_sector tpl_no_sector = 0.7
   \<and> map m_match_score
       (match_similar_events any_date no_data [tpl_no_sector] headline_no_sector 3) = [Some 0.7]"
  by (simp add: match_similar_events_def top_events_def scored_events_def format_result_def
      analyze_market_impact_def calculate_match_score_def py_slice_to_def py_round2_def
      py_round_def tpl_no_sector_def headline_no_sector_def any_date_def no_data_def Let_def)

section \<open>Failures of the aggregator and of the decision engine\<close>

lemma macro_analysis_never_succeeds:
  assumes "process_events initial_state ms = Inr st" and "3 \<le> events_with_macro st" and "ms \<noteq> []"
  shows "analyze_similar_events ms = Failed (Error_analyzing TypeError)"
  using assms by (simp add: analyze_similar_events_def Let_def)

lemma sort_keys_raises:
  "m \<in> set ms \<Longrightarrow> get_price_change m = Inl e \<Longrightarrow> \<exists>e'. sort_keys ms = Inl e'"
proof (induction ms)
  case Nil
  then show ?case by simp
next
  case (Cons x xs)
  then show ?case by (cases "x = m") (auto split: sum.splits)
qed

lemma marker_always_raises:
  assumes "m \<in> set ms" and "m_price_change_pct m = Some (Str s)"
  shows "\<exists>e. generate_trade_idea cp opts today h ms = Inl e"
proof -
  have "get_price_change m = Inl TypeError" using assms(2) by (simp add: get_price_change_def)
  with assms(1) obtain e where "sort_keys ms = Inl e" using sort_keys_raises by blast
  moreover have "ms \<noteq> []" using assms(1) by auto
  ultimately show ?thesis by (simp add: generate_trade_idea_def select_top_match_def)
qed

lemma decide_keeps_external_sell:
  assumes "lower (case h_sentiment h of None \<Rightarrow> [] | Some s \<Rightarrow> s) = ''bullish''"
    and "mdd < 2" and "h_direction h = Some ''SELL''"
  shows "decide h pc mdd =
           (Equity_trade, SELL, if pc < 0 \<and> 3 < \<bar>pc\<bar> then PUT else CALL, LLM_recommends_SELL)"
  using assms by (simp add: decide_def falsy_def Let_def)

lemma decide_keeps_external_buy:
  assumes "lower (case h_sentiment h of None \<Rightarrow> [] | Some s \<Rightarrow> s) = ''bearish''"
    and "h_is_cpi_week h \<or> inverted_curve h \<or> h_surprise_positive h"
    and "h_direction h = Some ''BUY''"
  shows "decide h pc mdd =
           (Equity_trade, BUY, if pc < 0 \<and> 3 < \<bar>pc\<bar> then PUT else CALL, LLM_recommends_BUY)"
  using assms by (simp add: decide_def falsy_def Let_def)

lemma decide_never_unbound: "snd (snd (snd (decide h pc mdd))) \<noteq> Unbound"
  by (simp add: decide_def falsy_def Let_def)

text \<open>
  C1. The specification requires that with three or more matches carrying a macro
  snapshot the Pattern Aggregator still returns a successful result with the base pattern fields. On
  three such matches the function returns the failure result (the call of
  \<^verbatim>\<open>generate_macro_insights\<close> with one argument raises and the handler of
  \<^verbatim>\<open>analyze_similar_events\<close> catches it), while it succeeds on the first two of them.
\<close>

theorem macro_analysis_fails:
  "analyze_similar_events three_macro_matches = Failed (Error_analyzing TypeError)
   \<and> success (analyze_similar_events (take 2 three_macro_matches))"
  by (simp add: analyze_similar_events_def process_event_def macro_point_of_def
      three_macro_matches_def macro_match_def macro_snapshot_def numeric_match_def
      initial_state_def get_or_none_def Let_def)

text \<open>
  C2. The specification requires that \<^verbatim>\<open>generate_trade_idea\<close> returns a trade idea for every
  non-empty list of matches, also when the price fields carry the markers the Match Scorer
  emits. On the matches the Match Scorer returns when no market data is available
  (\<^verbatim>\<open>"N/A"\<close>), and on those it returns when the impact analysis raised
  (\<^verbatim>\<open>"N/A (processing error)"\<close>), \<^verbatim>\<open>generate_trade_idea\<close> raises
  \<^verbatim>\<open>TypeError\<close>.
\<close>

theorem unavailable_marker_raises:
  "map m_price_change_pct (match_similar_events any_date no_data [tpl_fed] bearish_headline 3)
     = [Some (Str ''N/A'')]
   \<and> generate_trade_idea current_price_450 no_expiries 738000 bearish_headline
       (match_similar_events any_date no_data [tpl_fed] bearish_headline 3) = Inl TypeError
   \<and> map m_price_change_pct
       (match_similar_events any_date no_data [tpl_numeric_date] bearish_headline 3)
     = [Some (Str ''N/A (processing error)'')]
   \<and> generate_trade_idea current_price_450 no_expiries 738000 bearish_headline
       (match_similar_events any_date no_data [tpl_numeric_date] bearish_headline 3) = Inl TypeError"
  by (simp add: match_similar_events_def top_events_def scored_events_def format_result_def
      analyze_market_impact_def calculate_match_score_def py_slice_to_def no_impact_def
      tpl_fed_def tpl_numeric_date_def bearish_headline_def any_date_def no_data_def
      generate_trade_idea_def select_top_match_def get_price_change_def Let_def)

text \<open>
  C3. The specification requires that a bullish event whose top match has a drawdown magnitude below
  2.0 is emitted with direction BUY although the external recommendation is SELL, and that
  a bearish event in a CPI week is emitted with direction SELL although the external
  recommendation is BUY. On such inputs \<^verbatim>\<open>generate_trade_idea\<close> emits the external
  direction: SELL for the bullish event, BUY for the bearish one.
\<close>

theorem external_direction_wins:
  "generate_trade_idea current_price_450 no_expiries 738000 bullish_sell_headline
       [numeric_match ''Fed signals pause'' 0.8 4.5 (-1.5)]
     = Inr \<lparr>ticker = Some ''SPY'', trade_type = Equity_trade, direction = SELL,
            option_type = None, strike = None, expiry = None,
            rationale = Similar_event (numeric_match ''Fed signals pause'' 0.8 4.5 (-1.5))
                          LLM_recommends_SELL\<rparr>
   \<and> generate_trade_idea current_price_450 no_expiries 738000 bearish_buy_headline
       [numeric_match ''CPI comes in hot'' 0.8 (-4) (-5)]
     = Inr \<lparr>ticker = Some ''SPY'', trade_type = Equity_trade, direction = BUY,
            option_type = None, strike = None, expiry = None,
            rationale = Similar_event (numeric_match ''CPI comes in hot'' 0.8 (-4) (-5))
                          LLM_recommends_BUY\<rparr>"
  by (simp add: generate_trade_idea_def select_top_match_def get_price_change_def decide_def
      match_score_or_0_def numeric_match_def bullish_sell_headline_def bearish_buy_headline_def
      lower_def lower_char_def falsy_def current_price_450_def Let_def)

section \<open>Choice of the top match\<close>







section \<open>Consistency score\<close>












section \<open>Correlation Engine: guard, reported entry and the Pearson coefficient\<close>















lemma correlations_loop_raise:
  assumes "raises f pts"
  shows "f \<notin> set fs' \<Longrightarrow> g \<notin> set fs' \<Longrightarrow>
         correlations_loop (fs' @ f # fs) pts c g = c g"
proof (induction fs' arbitrary: c)
  case Nil
  from assms obtain e where "factor_entry f pts = Inl e"
    by (cases "factor_entry f pts") (auto simp: raises_def)
  then show ?case by simp
next
  case (Cons h hs)
  then have hg: "h \<noteq> g" and r: "f \<notin> set hs" "g \<notin> set hs" by auto
  show ?case using hg Cons.IH [OF r] by (simp split: sum.split option.split)
qed

lemma raising_factor_stops_loop:
  assumes "raises f pts" and "g = f \<or> f \<in> set (factors_before g)"
  shows "calculate_macro_correlations pts g = initial_entry"
proof -
  have "\<exists>fs' fs. [F_cpi, F_fed_rate, F_unemployment, F_yield_curve] = fs' @ f # fs
          \<and> f \<notin> set fs' \<and> g \<notin> set fs'"
    using assms(2)
    by (cases f; cases g; simp)
       (auto intro: exI [of _ "[]"] exI [of _ "[F_cpi]"] exI [of _ "[F_cpi, F_fed_rate]"]
          exI [of _ "[F_cpi, F_fed_rate, F_unemployment]"])
  then obtain fs' fs where "[F_cpi, F_fed_rate, F_unemployment, F_yield_curve] = fs' @ f # fs"
    and "f \<notin> set fs'" and "g \<notin> set fs'" by blast
  then show ?thesis
    unfolding calculate_macro_correlations_def
    using correlations_loop_raise [OF assms(1), of fs' g fs "\<lambda>f. initial_entry"] by simp
qed







lemma three_points_valid:
  "valid_points F_cpi three_points = [(Num 1, Num 0), (Num 2, Num 11), (Num 3, Num 13)]"
  "valid_points F_fed_rate three_points = [(Num 1, Str ''n/a''), (Num 2, Num 1), (Num 3, Num 2)]"
  "valid_points F_unemployment three_points = [(Num 1, Num 5), (Num 2, Num 6), (Num 3, Num 7)]"
  "valid_points F_yield_curve three_points = []"
  by (simp_all add: valid_points_def three_points_def point_def)


lemma three_points_fed_rate_raises: "raises F_fed_rate three_points"
  by (simp add: raises_def factor_entry_def three_points_valid Let_def)




end
